theory Spec2Isabelle
  imports Complex_Main "HOL-Library.Word" "HOL-Library.AList" "HOL-Library.Log_Nat"
begin

section \<open>SmallArray capacity growth (Source/Utility/Containers.h)\<close>

text \<open>
  \<^verbatim>\<open>size_t\<close> is the 64-bit unsigned integer of a 64-bit build (the only build in which
  both instantiations of \<^verbatim>\<open>SmallArrayBase\<close> exist); its arithmetic wraps around.
  The template parameter \<^verbatim>\<open>Size_T\<close> is \<^verbatim>\<open>uint32_t\<close> or \<^verbatim>\<open>uint64_t\<close>.
\<close>

type_synonym size_t = "64 word"

datatype Size_T = UInt32 | UInt64

text \<open>\<^verbatim>\<open>std::numeric_limits<Size_T>::max()\<close>, converted to \<^verbatim>\<open>size_t\<close>.\<close>

definition numeric_limits_max :: "Size_T \<Rightarrow> size_t" where
  "numeric_limits_max st = (case st of UInt32 \<Rightarrow> 4294967295 | UInt64 \<Rightarrow> 18446744073709551615)"

text \<open>
  Both reporting functions throw \<^verbatim>\<open>std::length_error\<close>; the two constructors keep the
  numbers that the message text is built from.
\<close>

datatype length_error =
    RequestedCapacityTooLarge size_t size_t
  | AlreadyAtMaximumSize size_t

definition report_size_overflow :: "size_t \<Rightarrow> size_t \<Rightarrow> length_error" where
  "report_size_overflow MinSize MaxSize = RequestedCapacityTooLarge MinSize MaxSize"

definition report_at_maximum_capacity :: "size_t \<Rightarrow> length_error" where
  "report_at_maximum_capacity MaxSize = AlreadyAtMaximumSize MaxSize"

text \<open>\<^verbatim>\<open>std::clamp(v, lo, hi)\<close>: \<^verbatim>\<open>(v < lo) ? lo : (hi < v) ? hi : v\<close>.\<close>

definition std_clamp :: "'a::linorder \<Rightarrow> 'a \<Rightarrow> 'a \<Rightarrow> 'a" where
  "std_clamp v lo hi = (if v < lo then lo else if hi < v then hi else v)"

definition getNewCapacity :: "Size_T \<Rightarrow> size_t \<Rightarrow> size_t \<Rightarrow> size_t \<Rightarrow> length_error + size_t" where
  "getNewCapacity st MinSize TSize OldCapacity =
     (let MaxSize = numeric_limits_max st in
      if MinSize > MaxSize then Inl (report_size_overflow MinSize MaxSize)
      else if OldCapacity = MaxSize then Inl (report_at_maximum_capacity MaxSize)
      else let NewCapacity = 2 * OldCapacity + 1
           in Inr (std_clamp NewCapacity MinSize MaxSize))"

section \<open>Stripping connections from a patch (Source/Utility/OfflineObjectRenderer.cpp)\<close>

text \<open>
  A \<^verbatim>\<open>juce::String\<close> is modelled as a \<^typ>\<open>string\<close>, a \<^verbatim>\<open>juce::StringArray\<close> as a list of
  strings. The JUCE members used by \<^verbatim>\<open>stripConnections\<close> are library code; they are
  written here as the library documents them.
\<close>

definition newline :: char where
  "newline = CHR 0x0A"

text \<open>
  \<^verbatim>\<open>StringArray::addTokens (text, breakCharacters, quoteCharacters)\<close> with no quote
  characters: nothing is added for an empty text; otherwise the text is cut at every
  break character, and a break character at the very end is followed by an empty token.
  \<^verbatim>\<open>tokens_from\<close> is the library's loop: take the token up to the next break character,
  stop when the text ended there, else skip the break character and go on.
\<close>

function tokens_from :: "string \<Rightarrow> string \<Rightarrow> string list" where
  "tokens_from breakCharacters t =
     (let token = takeWhile (\<lambda>c. c \<notin> set breakCharacters) t;
          tokenEnd = dropWhile (\<lambda>c. c \<notin> set breakCharacters) t
      in if tokenEnd = [] then [token]
         else token # tokens_from breakCharacters (tl tokenEnd))"
  by pat_completeness auto
termination
proof (relation "measure (\<lambda>(b, t). length t)")
  show "wf (measure (\<lambda>(b :: string, t :: string). length t))"
    by simp
next
  fix breakCharacters t :: string and token tokenEnd :: string
  assume "tokenEnd = dropWhile (\<lambda>c. c \<notin> set breakCharacters) t" and "tokenEnd \<noteq> []"
  then have "length tokenEnd \<le> length t" and "length (tl tokenEnd) < length tokenEnd"
    by (simp_all add: length_dropWhile_le)
  then have "length (tl tokenEnd) < length t"
    by (rule less_le_trans [rotated])
  then show "((breakCharacters, tl tokenEnd), (breakCharacters, t)) \<in> measure (\<lambda>(b, t). length t)"
    by simp
qed

declare tokens_from.simps [simp del]

definition addTokens :: "string \<Rightarrow> string \<Rightarrow> string list" where
  "addTokens text breakCharacters = (if text = [] then [] else tokens_from breakCharacters text)"

text \<open>\<^verbatim>\<open>String::startsWith\<close>: the first characters of the string are those of \<^verbatim>\<open>other\<close>.\<close>

definition startsWith :: "string \<Rightarrow> string \<Rightarrow> bool" where
  "startsWith s other = (take (length other) s = other)"

text \<open>
  \<^verbatim>\<open>StringArray::operator[]\<close> gives an empty string out of range, and
  \<^verbatim>\<open>StringArray::remove\<close> does nothing there.
\<close>

definition StringArray_get :: "string list \<Rightarrow> nat \<Rightarrow> string" where
  "StringArray_get lines i = (if i < length lines then lines ! i else [])"

definition StringArray_remove :: "nat \<Rightarrow> string list \<Rightarrow> string list" where
  "StringArray_remove i lines = take i lines @ drop (Suc i) lines"

text \<open>
  The loop \<^verbatim>\<open>for (int i = lines.size() - 1; i >= 0; --i)\<close>; the first argument is
  \<^verbatim>\<open>i + 1\<close>, the number of indices still to visit.
\<close>

fun remove_connect_lines :: "nat \<Rightarrow> string list \<Rightarrow> string list" where
  "remove_connect_lines 0 lines = lines"
| "remove_connect_lines (Suc i) lines =
     remove_connect_lines i
       (if startsWith (StringArray_get lines i) ''#X connect''
        then StringArray_remove i lines else lines)"

definition stripConnections :: "string \<Rightarrow> string" where
  "stripConnections patch =
     (let lines = addTokens patch [newline];
          lines = remove_connect_lines (length lines) lines
      in foldl (\<lambda>strippedPatch line. strippedPatch @ (line @ [newline])) [] lines)"

text \<open>The text whose lines are \<open>ls\<close>, consecutive lines separated by one newline.\<close>

fun join_lines :: "string list \<Rightarrow> string" where
  "join_lines [] = []"
| "join_lines [l] = l"
| "join_lines (l # ls) = l @ newline # join_lines ls"

section \<open>The draggable number box (Source/Components/DraggableNumber.h)\<close>

text \<open>
  A finite \<^verbatim>\<open>float\<close> is modelled by the real number it denotes; infinities and NaN are
  left out. \<^verbatim>\<open>Label::setText\<close> and the \<^verbatim>\<open>onValueChange\<close> callback are effects outside
  the object: each call is recorded, in order, with its arguments.
\<close>

datatype NotificationType =
  dontSendNotification | sendNotification | sendNotificationSync | sendNotificationAsync

datatype DraggableNumber_call =
    setText real NotificationType    \<comment> \<open>\<^verbatim>\<open>setText(String(newValue, 8), notification)\<close>\<close>
  | onValueChange real

record DraggableNumber =
  lastValue :: real
  min_val :: real        \<comment> \<open>the field \<^verbatim>\<open>min\<close>\<close>
  max_val :: real        \<comment> \<open>the field \<^verbatim>\<open>max\<close>\<close>
  isMinLimited :: bool
  isMaxLimited :: bool
  wasReset :: bool
  calls :: "DraggableNumber_call list"

definition DraggableNumber_setMaximum :: "real \<Rightarrow> DraggableNumber \<Rightarrow> DraggableNumber" where
  "DraggableNumber_setMaximum maximum d = d\<lparr>isMaxLimited := True, max_val := maximum\<rparr>"

definition DraggableNumber_setMinimum :: "real \<Rightarrow> DraggableNumber \<Rightarrow> DraggableNumber" where
  "DraggableNumber_setMinimum minimum d = d\<lparr>isMinLimited := True, min_val := minimum\<rparr>"

definition limitValue :: "DraggableNumber \<Rightarrow> real \<Rightarrow> real" where
  "limitValue d valueToLimit =
     (if min_val d = 0 \<and> max_val d = 0 then valueToLimit
      else let valueToLimit = (if isMinLimited d then max valueToLimit (min_val d) else valueToLimit);
               valueToLimit = (if isMaxLimited d then min valueToLimit (max_val d) else valueToLimit)
           in valueToLimit)"

text \<open>
  \<^verbatim>\<open>approximatelyEqual\<close> is a JUCE function; \<^verbatim>\<open>setValue\<close> takes it as the parameter
  \<open>approximatelyEqual\<close>.
\<close>

definition DraggableNumber_setValue ::
  "(real \<Rightarrow> real \<Rightarrow> bool) \<Rightarrow> real \<Rightarrow> NotificationType \<Rightarrow> DraggableNumber \<Rightarrow> DraggableNumber" where
  "DraggableNumber_setValue approximatelyEqual newValue notification d =
     (let d = d\<lparr>wasReset := False\<rparr>;
          newValue = limitValue d newValue
      in if \<not> approximatelyEqual (lastValue d) newValue
         then d\<lparr>lastValue := newValue,
                calls := calls d @ [setText newValue notification, onValueChange newValue]\<rparr>
         else d)"

definition DraggableNumber_getValue :: "DraggableNumber \<Rightarrow> real" where
  "DraggableNumber_getValue d = lastValue d"

text \<open>
  JUCE's \<^verbatim>\<open>approximatelyEqual (a, b)\<close> on finite floats with its default tolerance: the
  absolute tolerance is the smallest normal float \<open>2\<^sup>-\<^sup>1\<^sup>2\<^sup>6\<close>, the relative one the float
  epsilon \<open>2\<^sup>-\<^sup>2\<^sup>3\<close>.
\<close>

definition juce_approximatelyEqual :: "real \<Rightarrow> real \<Rightarrow> bool" where
  "juce_approximatelyEqual a b =
     (let diff = \<bar>a - b\<bar>
      in diff \<le> 1 / 2 ^ 126 \<or> diff \<le> (1 / 2 ^ 23) * max \<bar>a\<bar> \<bar>b\<bar>)"

section \<open>Debounced connection path updates (Source/Connection.h)\<close>

text \<open>
  The state a call of \<^verbatim>\<open>ConnectionPathUpdater::pushPathState\<close> runs in: the updater's own
  members (the canvas pointer, the queue, the \<^verbatim>\<open>juce::Timer\<close> base object) and the patch
  the canvas edits. \<open>'c\<close> stands for \<^verbatim>\<open>Component::SafePointer<Connection>\<close>, \<open>'s\<close> for
  \<^verbatim>\<open>t_symbol*\<close>, \<open>'p\<close> for the patch. A timer that is not running has period 0;
  \<open>timerCountdownMs\<close> is the time left until the next callback of a running timer.
\<close>

record ('c, 's, 'p) ConnectionPathUpdater =
  canvas :: nat
  connectionUpdateQueue :: "('c \<times> 's) list"
  timerPeriodMs :: int
  timerCountdownMs :: int
  patch :: 'p

text \<open>\<^verbatim>\<open>ReaderWriterQueue::enqueue\<close> appends at the tail. \<^verbatim>\<open>Timer::startTimer\<close> sets the
  period, at least 1 ms, and starts the countdown of that period afresh, also when the
  timer was already running.\<close>

definition enqueue :: "'a \<Rightarrow> 'a list \<Rightarrow> 'a list" where
  "enqueue x q = q @ [x]"

definition startTimer ::
  "int \<Rightarrow> ('c, 's, 'p) ConnectionPathUpdater \<Rightarrow> ('c, 's, 'p) ConnectionPathUpdater" where
  "startTimer intervalInMilliseconds u =
     u\<lparr>timerPeriodMs := max 1 intervalInMilliseconds,
       timerCountdownMs := max 1 intervalInMilliseconds\<rparr>"

definition pushPathState ::
  "'c \<Rightarrow> 's \<Rightarrow> ('c, 's, 'p) ConnectionPathUpdater \<Rightarrow> ('c, 's, 'p) ConnectionPathUpdater" where
  "pushPathState connection newPathState u =
     startTimer 50
       (u\<lparr>connectionUpdateQueue := enqueue (connection, newPathState) (connectionUpdateQueue u)\<rparr>)"

text \<open>
  Modelled from the spec: the body of \<^verbatim>\<open>ConnectionPathUpdater::timerCallback\<close>, which the
  header only declares. The update queue "serializes geometry changes back into the
  underlying patch data structure": the callback drains the queue from the head and applies
  every queued pair to the patch; \<open>setConnectionPath\<close> is the patch operation that
  applies one pair.
\<close>

definition timerCallback ::
  "('c \<Rightarrow> 's \<Rightarrow> 'p \<Rightarrow> 'p) \<Rightarrow> ('c, 's, 'p) ConnectionPathUpdater \<Rightarrow> ('c, 's, 'p) ConnectionPathUpdater" where
  "timerCallback setConnectionPath u =
     u\<lparr>patch := foldl (\<lambda>p (connection, state). setConnectionPath connection state p)
                  (patch u) (connectionUpdateQueue u),
       connectionUpdateQueue := []\<rparr>"

section \<open>Accessors of libpd-backed objects (ToggleObject, NumberObject, RadioObject)\<close>

text \<open>
  A \<^verbatim>\<open>t_float\<close> read from a libpd structure, with the two infinities that the accessors
  return as defaults.
\<close>

datatype float = Finite real | PlusInfinity | MinusInfinity | NaN

text \<open>The fields of the libpd structures that the accessors read.\<close>

record t_toggle =
  x_on :: float
  x_nonzero :: float

record t_my_numbox =
  x_val :: float
  x_min :: float
  x_max :: float

record t_radio =
  x_on :: "32 word"       \<comment> \<open>an \<^verbatim>\<open>int\<close>\<close>
  x_number :: "32 word"   \<comment> \<open>an \<^verbatim>\<open>int\<close>\<close>

text \<open>
  The conversion of an \<^verbatim>\<open>int\<close> to \<^verbatim>\<open>float\<close>: exact up to 24 bits, and rounded to the
  nearest number with a significand of 24 bits, ties to the even one, above.
\<close>

definition float_of_int :: "int \<Rightarrow> real" where
  "float_of_int i =
     (let a = \<bar>i\<bar>;
          ulp = 2 ^ nat (bitlen a - 24);
          q = a div ulp;
          r = a mod ulp;
          q = (if ulp < 2 * r \<or> (2 * r = ulp \<and> odd q) then q + 1 else q)
      in real_of_int (sgn i * q * ulp))"

text \<open>
  The libpd objects live at addresses; an address whose object has been deleted from the
  patch holds nothing. \<open>dereferenced\<close> records, in order, the addresses that the
  user-interface code has dereferenced.
\<close>

type_synonym address = nat

record 'a pd_state =
  objects :: "address \<rightharpoonup> 'a"
  dereferenced :: "address list"

datatype pointer_error = DanglingPointerDereference address

text \<open>
  Modelled from the spec: \<^verbatim>\<open>pd::WeakReference::get<T>()\<close>, which no file of the source
  defines. It is the "weak-pointer check around libpd object pointers (objects can be
  deleted from the patch ... while the UI holds a reference)": locking succeeds and yields
  the object while the object is alive, and fails once it has been deleted.
\<close>

definition WeakReference_get :: "'a pd_state \<Rightarrow> address \<Rightarrow> 'a option" where
  "WeakReference_get s ptr = objects s ptr"

text \<open>Reading a field through a locked reference, or through a raw pointer (a
  \<^verbatim>\<open>static_cast\<close> of \<^verbatim>\<open>void* ptr\<close>), is a dereference of the address.\<close>

definition deref :: "address \<Rightarrow> 'a pd_state \<Rightarrow> 'a pd_state" where
  "deref ptr s = s\<lparr>dereferenced := dereferenced s @ [ptr]\<rparr>"

definition ToggleObject_getValue :: "t_toggle pd_state \<Rightarrow> address \<Rightarrow> float \<times> t_toggle pd_state" where
  "ToggleObject_getValue s ptr =
     (case WeakReference_get s ptr of
        Some toggle \<Rightarrow> (t_toggle.x_on toggle, deref ptr s)
      | None \<Rightarrow> (Finite 0, s))"

definition NumberObject_getValue :: "t_my_numbox pd_state \<Rightarrow> address \<Rightarrow> float \<times> t_my_numbox pd_state" where
  "NumberObject_getValue s ptr =
     (case WeakReference_get s ptr of
        Some numbox \<Rightarrow> (x_val numbox, deref ptr s)
      | None \<Rightarrow> (Finite 0, s))"

definition NumberObject_getMinimum :: "t_my_numbox pd_state \<Rightarrow> address \<Rightarrow> float \<times> t_my_numbox pd_state" where
  "NumberObject_getMinimum s ptr =
     (case WeakReference_get s ptr of
        Some numbox \<Rightarrow> (x_min numbox, deref ptr s)
      | None \<Rightarrow> (MinusInfinity, s))"

definition NumberObject_getMaximum :: "t_my_numbox pd_state \<Rightarrow> address \<Rightarrow> float \<times> t_my_numbox pd_state" where
  "NumberObject_getMaximum s ptr =
     (case WeakReference_get s ptr of
        Some numbox \<Rightarrow> (x_max numbox, deref ptr s)
      | None \<Rightarrow> (PlusInfinity, s))"

text \<open>
  \<^verbatim>\<open>RadioObject\<close> keeps a raw \<^verbatim>\<open>void* ptr\<close> and reads
  \<^verbatim>\<open>static_cast<t_radio*>(ptr)->x_on\<close> with no check; reading through the pointer of a
  deleted object is an error of the program.
\<close>

definition RadioObject_getValue ::
  "t_radio pd_state \<Rightarrow> address \<Rightarrow> pointer_error + float \<times> t_radio pd_state" where
  "RadioObject_getValue s ptr =
     (case objects s ptr of
        Some radio \<Rightarrow> Inr (Finite (float_of_int (sint (t_radio.x_on radio))), deref ptr s)
      | None \<Rightarrow> Inl (DanglingPointerDereference ptr))"

definition RadioObject_getMaximum ::
  "t_radio pd_state \<Rightarrow> address \<Rightarrow> pointer_error + float \<times> t_radio pd_state" where
  "RadioObject_getMaximum s ptr =
     (case objects s ptr of
        Some radio \<Rightarrow> Inr (Finite (float_of_int (sint (x_number radio))), deref ptr s)
      | None \<Rightarrow> Inl (DanglingPointerDereference ptr))"

section \<open>Plugin parameters and their XML state (Source/Utility/PluginParameter.h)\<close>

subsection \<open>The XML elements of JUCE\<close>



datatype error =
    NullPointerDereference      \<comment> \<open>a member is called through a null pointer\<close>
  | BufferOverflow              \<comment> \<open>\<^verbatim>\<open>std::copy\<close> writes past the 128 characters of the name\<close>
  | UnterminatedString          \<comment> \<open>the name has no terminating zero to read up to\<close>
  | UnmodelledTextConversion

definition and_then :: "error + 'a \<Rightarrow> ('a \<Rightarrow> error + 'b) \<Rightarrow> error + 'b" where
  "and_then m f = (case m of Inl e \<Rightarrow> Inl e | Inr x \<Rightarrow> f x)"














subsection \<open>Floats in the parameter\<close>

text \<open>
  The range bounds, the skew and the numbers of the XML are finite and are the real
  numbers they denote; arithmetic on them is exact, and the casts between \<^verbatim>\<open>float\<close> and
  \<^verbatim>\<open>double\<close> are the identity. The value of a parameter and its normalised value are
  of type \<^typ>\<open>float\<close>, because a division by the width of an empty range gives an infinity
  or no number at all. The sign of a zero is not distinguished.
\<close>







subsection \<open>The parameter\<close>




text \<open>
  What the parameter code calls outside itself: JUCE's \<^verbatim>\<open>approximatelyEqual\<close> on two
  finite floats, and a parameter of another class in the array (a
  \<^verbatim>\<open>juce::AudioProcessorParameter\<close> with state \<open>'v\<close>). \<^verbatim>\<open>ProjectInfo::isStandalone\<close> is a
  constant of the build.
\<close>

record 'v juce =
  approximatelyEqual :: "real \<Rightarrow> real \<Rightarrow> bool"
  host_getValue :: "'v \<Rightarrow> float"
  host_setValueNotifyingHost :: "float \<Rightarrow> 'v \<Rightarrow> 'v"
  isStandalone :: bool


















subsection \<open>Saving and loading the state\<close>










subsection \<open>What a saved state holds\<close>








section \<open>Properties of the capacity growth\<close>

lemma no_wrap_doubling: "unat (x :: size_t) < 2 ^ 63 \<Longrightarrow> x < 2 * x + 1"
  by (simp add: word_less_nat_alt unat_word_ariths)

text \<open>
  C4, as the code has it. \<^verbatim>\<open>getNewCapacity\<close> throws exactly when \<open>MinSize\<close> exceeds the
  maximum of the size type or \<open>OldCapacity\<close> equals that maximum. Otherwise it returns
  \<^verbatim>\<open>std::clamp(2 * OldCapacity + 1, MinSize, MaxSize)\<close>, computed in \<^verbatim>\<open>size_t\<close>; the
  result is at least \<open>MinSize\<close> and at most the maximum, and it is strictly greater than
  \<open>OldCapacity\<close> whenever \<open>OldCapacity\<close> is a value of the size type and
  \<open>2 * OldCapacity + 1\<close> does not wrap around (\<open>OldCapacity < 2\<^sup>6\<^sup>3\<close>).
\<close>

theorem getNewCapacity_growth:
  "((\<exists>e. getNewCapacity st MinSize TSize OldCapacity = Inl e) \<longleftrightarrow>
      (numeric_limits_max st < MinSize \<or> OldCapacity = numeric_limits_max st))
   \<and> (\<forall>c. getNewCapacity st MinSize TSize OldCapacity = Inr c \<longrightarrow>
          c = std_clamp (2 * OldCapacity + 1) MinSize (numeric_limits_max st)
        \<and> MinSize \<le> c \<and> c \<le> numeric_limits_max st
        \<and> (OldCapacity \<le> numeric_limits_max st \<and> unat OldCapacity < 2 ^ 63 \<longrightarrow> OldCapacity < c))"
  using no_wrap_doubling [of OldCapacity]
  by (auto simp: getNewCapacity_def Let_def std_clamp_def split: if_splits)

theorem getNewCapacity_growth_witness:
  "getNewCapacity UInt32 0 4 8 = Inr 17
   \<and> (8 :: size_t) \<le> numeric_limits_max UInt32 \<and> unat (8 :: size_t) < 2 ^ 63 \<and> (8 :: size_t) < 17
   \<and> getNewCapacity UInt32 4294967296 4 8 = Inl (RequestedCapacityTooLarge 4294967296 4294967295)
   \<and> getNewCapacity UInt32 0 4 4294967295 = Inl (AlreadyAtMaximumSize 4294967295)"
  using getNewCapacity_growth [of UInt32 0 4 8]
  by (simp add: getNewCapacity_def numeric_limits_max_def std_clamp_def
        report_size_overflow_def report_at_maximum_capacity_def)

text \<open>
  With a 64-bit size type and an old capacity of \<open>2\<^sup>6\<^sup>3\<close>, the new capacity
  \<open>2 * OldCapacity + 1\<close> wraps around to 1: nothing is thrown and the result is not
  greater than the old capacity.
\<close>

theorem getNewCapacity_wraps:
  "getNewCapacity UInt64 0 1 9223372036854775808 = Inr 1
   \<and> \<not> ((9223372036854775808 :: size_t) < 1)"
  by (simp add: getNewCapacity_def numeric_limits_max_def std_clamp_def)

section \<open>Properties of \<^verbatim>\<open>stripConnections\<close>\<close>

lemma remove_connect_lines_filter:
  "n \<le> length xs \<Longrightarrow>
   remove_connect_lines n xs =
     filter (\<lambda>l. \<not> startsWith l ''#X connect'') (take n xs) @ drop n xs"
proof (induction n arbitrary: xs)
  case 0
  then show ?case by simp
next
  case (Suc n)
  then have n: "n < length xs" by simp
  show ?case
  proof (cases "startsWith (xs ! n) ''#X connect''")
    case True
    have "n \<le> length (StringArray_remove n xs)"
      using n by (simp add: StringArray_remove_def)
    from Suc.IH [OF this] True n show ?thesis
      by (simp add: StringArray_get_def StringArray_remove_def take_Suc_conv_app_nth)
  next
    case False
    from Suc.IH [of xs] False n show ?thesis
      by (simp add: StringArray_get_def take_Suc_conv_app_nth Cons_nth_drop_Suc)
  qed
qed

lemma foldl_append_lines:
  "foldl (\<lambda>strippedPatch line. strippedPatch @ (line @ [newline])) acc ls =
   acc @ concat (map (\<lambda>l. l @ [newline]) ls)"
  by (induction ls arbitrary: acc) simp_all

lemma tokens_from_not_Nil: "tokens_from b t \<noteq> []"
  by (subst tokens_from.simps) (simp add: Let_def)

lemma join_lines_Cons: "ls \<noteq> [] \<Longrightarrow> join_lines (l # ls) = l @ newline # join_lines ls"
  by (cases ls) simp_all

lemma join_tokens_from: "join_lines (tokens_from [newline] t) = t"
proof (induction "[newline]" t rule: tokens_from.induct)
  case (1 t)
  let ?P = "\<lambda>c. c \<notin> set [newline]"
  show ?case
  proof (cases "dropWhile ?P t = []")
    case True
    then have "takeWhile ?P t = t"
      by (metis append_Nil2 takeWhile_dropWhile_id)
    with True show ?thesis
      by (subst tokens_from.simps) (simp add: Let_def)
  next
    case False
    then obtain c r where cr: "dropWhile ?P t = c # r"
      by (cases "dropWhile ?P t") auto
    then have "\<not> ?P c"
      by (metis hd_dropWhile list.sel(1) list.distinct(1))
    then have c: "c = newline" by simp
    have ih: "join_lines (tokens_from [newline] r) = r"
      using "1.hyps" [OF refl refl False] cr by simp
    have "takeWhile ?P t @ c # r = t"
      using cr by (metis takeWhile_dropWhile_id)
    with ih c cr show ?thesis
      by (subst tokens_from.simps) (simp add: Let_def join_lines_Cons tokens_from_not_Nil)
  qed
qed

lemma tokens_from_no_break: "l \<in> set (tokens_from b t) \<Longrightarrow> c \<in> set l \<Longrightarrow> c \<notin> set b"
proof (induction b t rule: tokens_from.induct)
  case (1 b t)
  let ?P = "\<lambda>c. c \<notin> set b"
  from "1.prems"(1)
  have "l = takeWhile ?P t
        \<or> (dropWhile ?P t \<noteq> [] \<and> l \<in> set (tokens_from b (tl (dropWhile ?P t))))"
    by (subst (asm) tokens_from.simps) (auto simp: Let_def split: if_splits)
  then show ?case
  proof
    assume "l = takeWhile ?P t"
    with "1.prems"(2) show ?thesis by (auto dest: set_takeWhileD)
  next
    assume "dropWhile ?P t \<noteq> [] \<and> l \<in> set (tokens_from b (tl (dropWhile ?P t)))"
    then show ?thesis using "1.IH" [OF refl refl] "1.prems"(2) by blast
  qed
qed

text \<open>
  C7. The lines of the input are the tokens that \<^verbatim>\<open>addTokens\<close> cuts at the newlines:
  none of them contains a newline, joined by single newlines they give the input back,
  and only the empty input has no line (an input that ends with a newline has an empty
  last line). The result of \<^verbatim>\<open>stripConnections\<close> is these lines, in their order, without
  those that start with \<^verbatim>\<open>#X connect\<close>, each followed by one newline.
\<close>

theorem stripConnections_lines:
  "stripConnections input =
     concat (map (\<lambda>l. l @ [newline])
       (filter (\<lambda>l. \<not> startsWith l ''#X connect'') (addTokens input [newline])))
   \<and> join_lines (addTokens input [newline]) = input
   \<and> (\<forall>l \<in> set (addTokens input [newline]). newline \<notin> set l)
   \<and> (addTokens input [newline] = [] \<longleftrightarrow> input = [])"
  using tokens_from_no_break [of _ "[newline]" input newline]
  by (auto simp: stripConnections_def Let_def remove_connect_lines_filter foldl_append_lines
        addTokens_def join_tokens_from tokens_from_not_Nil)

theorem stripConnections_lines_witness:
  "stripConnections (''#X obj 5 5 f;'' @ newline # ''#X connect 0 0 1 0;'' @ newline # ''#X msg 9 9;'')
     = ''#X obj 5 5 f;'' @ newline # ''#X msg 9 9;'' @ [newline]
   \<and> ''#X obj 5 5 f;'' \<in> set (addTokens (''#X obj 5 5 f;'' @ newline # ''#X connect 0 0 1 0;'' @ newline # ''#X msg 9 9;'') [newline])
   \<and> newline \<notin> set ''#X obj 5 5 f;''"
proof -
  have tok: "addTokens (''#X obj 5 5 f;'' @ newline # ''#X connect 0 0 1 0;'' @ newline # ''#X msg 9 9;'') [newline]
       = [''#X obj 5 5 f;'', ''#X connect 0 0 1 0;'', ''#X msg 9 9;'']"
    by code_simp
  from stripConnections_lines [of "''#X obj 5 5 f;'' @ newline # ''#X connect 0 0 1 0;'' @ newline # ''#X msg 9 9;''"]
  show ?thesis
    unfolding tok by (simp add: startsWith_def)
qed

section \<open>Properties of the draggable number box\<close>

lemma juce_approximatelyEqual_refl: "juce_approximatelyEqual x x"
  by (simp add: juce_approximatelyEqual_def)

lemma limitValue_unlimited: "min_val d = 0 \<and> max_val d = 0 \<Longrightarrow> limitValue d v = v"
  by (simp add: limitValue_def)

lemma limitValue_limited:
  "\<not> (min_val d = 0 \<and> max_val d = 0) \<Longrightarrow>
   limitValue d v =
     (let v1 = (if isMinLimited d \<and> v < min_val d then min_val d else v)
      in if isMaxLimited d \<and> max_val d < v1 then max_val d else v1)"
  unfolding limitValue_def Let_def max_def min_def
  by (cases "isMinLimited d"; cases "isMaxLimited d"; simp; linarith)

lemma limitValue_wasReset: "limitValue (d\<lparr>wasReset := b\<rparr>) v = limitValue d v"
  by (simp add: limitValue_def)

lemma setValue_changed:
  "\<not> approxEq (lastValue d) (limitValue d v) \<Longrightarrow>
   DraggableNumber_getValue (DraggableNumber_setValue approxEq v n d) = limitValue d v
   \<and> calls (DraggableNumber_setValue approxEq v n d) =
       calls d @ [setText (limitValue d v) n, onValueChange (limitValue d v)]"
  by (simp add: DraggableNumber_getValue_def DraggableNumber_setValue_def Let_def
        limitValue_wasReset)

lemma setValue_unchanged:
  "approxEq (lastValue d) (limitValue d v) \<Longrightarrow>
   DraggableNumber_getValue (DraggableNumber_setValue approxEq v n d) = lastValue d
   \<and> calls (DraggableNumber_setValue approxEq v n d) = calls d"
  by (simp add: DraggableNumber_getValue_def DraggableNumber_setValue_def Let_def
        limitValue_wasReset)

text \<open>
  C8, as the code has it. \<^verbatim>\<open>limitValue\<close> leaves the value alone when \<open>min\<close> and \<open>max\<close>
  are both 0, whatever the two limit flags say, and otherwise clamps it below at \<open>min\<close>
  when \<open>isMinLimited\<close> and then above at \<open>max\<close> when \<open>isMaxLimited\<close>.
  \<^verbatim>\<open>setValue\<close> stores the limited value, sets the text and fires \<open>onValueChange\<close> with
  it exactly when the limited value is not approximately equal to the value stored
  before; when it is approximately equal, the stored value stays what it was and nothing
  fires. So, for a reflexive \<open>approximatelyEqual\<close>, the callback fires only when the
  stored value has changed.
\<close>

theorem setValue_stores_limited_value:
  "(min_val d = 0 \<and> max_val d = 0 \<longrightarrow> limitValue d v = v)
   \<and> (\<not> (min_val d = 0 \<and> max_val d = 0) \<longrightarrow>
        limitValue d v =
          (let v1 = (if isMinLimited d \<and> v < min_val d then min_val d else v)
           in if isMaxLimited d \<and> max_val d < v1 then max_val d else v1))
   \<and> (\<not> approxEq (lastValue d) (limitValue d v) \<longrightarrow>
        DraggableNumber_getValue (DraggableNumber_setValue approxEq v n d) = limitValue d v
      \<and> calls (DraggableNumber_setValue approxEq v n d) =
          calls d @ [setText (limitValue d v) n, onValueChange (limitValue d v)])
   \<and> (approxEq (lastValue d) (limitValue d v) \<longrightarrow>
        DraggableNumber_getValue (DraggableNumber_setValue approxEq v n d) = lastValue d
      \<and> calls (DraggableNumber_setValue approxEq v n d) = calls d)
   \<and> ((\<forall>x. approxEq x x) \<and> calls (DraggableNumber_setValue approxEq v n d) \<noteq> calls d \<longrightarrow>
        DraggableNumber_getValue (DraggableNumber_setValue approxEq v n d) \<noteq> lastValue d)"
proof (intro conjI impI)
  assume "(\<forall>x. approxEq x x) \<and> calls (DraggableNumber_setValue approxEq v n d) \<noteq> calls d"
  then have refl: "approxEq (limitValue d v) (limitValue d v)"
    and "\<not> approxEq (lastValue d) (limitValue d v)"
    using setValue_unchanged [of approxEq d v n] by auto
  then show "DraggableNumber_getValue (DraggableNumber_setValue approxEq v n d) \<noteq> lastValue d"
    using setValue_changed [of approxEq d v n] by auto
qed (simp_all add: limitValue_unlimited limitValue_limited setValue_changed setValue_unchanged)

theorem setValue_stores_limited_value_witness:
  "(let d = DraggableNumber_setMaximum 10 (DraggableNumber_setMinimum 0
              \<lparr>lastValue = 0, min_val = 0, max_val = 0, isMinLimited = False,
               isMaxLimited = False, wasReset = False, calls = []\<rparr>)
    in \<not> (min_val d = 0 \<and> max_val d = 0)
     \<and> limitValue d 12 = 10
     \<and> \<not> juce_approximatelyEqual (lastValue d) (limitValue d 12)
     \<and> DraggableNumber_getValue (DraggableNumber_setValue juce_approximatelyEqual 12 sendNotification d) = 10
     \<and> calls (DraggableNumber_setValue juce_approximatelyEqual 12 sendNotification d)
         = [setText 10 sendNotification, onValueChange 10])
   \<and> (let d = DraggableNumber_setMaximum 0 (DraggableNumber_setMinimum 0
              \<lparr>lastValue = 3, min_val = 0, max_val = 0, isMinLimited = False,
               isMaxLimited = False, wasReset = False, calls = []\<rparr>)
    in min_val d = 0 \<and> max_val d = 0 \<and> isMinLimited d \<and> isMaxLimited d
     \<and> limitValue d 3 = 3
     \<and> juce_approximatelyEqual (lastValue d) (limitValue d 3)
     \<and> DraggableNumber_getValue (DraggableNumber_setValue juce_approximatelyEqual 3 sendNotification d) = 3
     \<and> calls (DraggableNumber_setValue juce_approximatelyEqual 3 sendNotification d) = [])"
  using setValue_stores_limited_value
          [of "DraggableNumber_setMaximum 10 (DraggableNumber_setMinimum 0
                 \<lparr>lastValue = 0, min_val = 0, max_val = 0, isMinLimited = False,
                  isMaxLimited = False, wasReset = False, calls = []\<rparr>)"
              12 juce_approximatelyEqual sendNotification]
        setValue_stores_limited_value
          [of "DraggableNumber_setMaximum 0 (DraggableNumber_setMinimum 0
                 \<lparr>lastValue = 3, min_val = 0, max_val = 0, isMinLimited = False,
                  isMaxLimited = False, wasReset = False, calls = []\<rparr>)"
              3 juce_approximatelyEqual sendNotification]
  by (simp add: DraggableNumber_setMaximum_def DraggableNumber_setMinimum_def Let_def
        juce_approximatelyEqual_def)

text \<open>
  With no limits (\<open>min = max = 0\<close>) and 16777216 stored, \<^verbatim>\<open>setValue(16777218)\<close> stores
  nothing: the two floats are approximately equal under JUCE's default tolerance, so the
  stored value stays 16777216 and is not the new value.
\<close>

theorem setValue_keeps_approximately_equal_value:
  "DraggableNumber_getValue
     (DraggableNumber_setValue juce_approximatelyEqual 16777218 sendNotification
        \<lparr>lastValue = 16777216, min_val = 0, max_val = 0, isMinLimited = False,
         isMaxLimited = False, wasReset = False, calls = []\<rparr>) = 16777216"
  by (simp add: DraggableNumber_getValue_def DraggableNumber_setValue_def limitValue_def
        juce_approximatelyEqual_def Let_def)

section \<open>Properties of the connection path updater\<close>

lemma pushPathState_sequence:
  "foldl (\<lambda>u (connection, newPathState). pushPathState connection newPathState u) u pairs =
     (if pairs = [] then u
      else u\<lparr>connectionUpdateQueue := connectionUpdateQueue u @ pairs,
             timerPeriodMs := 50, timerCountdownMs := 50\<rparr>)"
proof (induction pairs arbitrary: u)
  case Nil
  then show ?case by simp
next
  case (Cons pair pairs)
  then show ?case
    by (cases pair) (simp add: pushPathState_def startTimer_def enqueue_def)
qed

text \<open>
  C2. A call of \<^verbatim>\<open>pushPathState\<close> appends the pair to the update queue and starts the
  timer with a period of 50 ms, the countdown beginning afresh; the canvas pointer, the
  patch and everything else keep their values. However many calls follow one another, the
  patch stays what it was and the queue holds their pairs in the order of the calls. The
  patch changes when the timer callback runs: it applies the queued pairs, the oldest
  first, and leaves the queue empty.
\<close>

theorem pushPathState_only_queues:
  "pushPathState connection newPathState u =
     u\<lparr>connectionUpdateQueue := connectionUpdateQueue u @ [(connection, newPathState)],
       timerPeriodMs := 50, timerCountdownMs := 50\<rparr>
   \<and> patch (pushPathState connection newPathState u) = patch u
   \<and> canvas (pushPathState connection newPathState u) = canvas u
   \<and> patch (foldl (\<lambda>u (connection, newPathState). pushPathState connection newPathState u) u pairs)
       = patch u
   \<and> connectionUpdateQueue
         (foldl (\<lambda>u (connection, newPathState). pushPathState connection newPathState u) u pairs)
       = connectionUpdateQueue u @ pairs
   \<and> patch (timerCallback setConnectionPath
         (foldl (\<lambda>u (connection, newPathState). pushPathState connection newPathState u) u pairs))
       = foldl (\<lambda>p (connection, state). setConnectionPath connection state p) (patch u)
           (connectionUpdateQueue u @ pairs)
   \<and> connectionUpdateQueue (timerCallback setConnectionPath
         (foldl (\<lambda>u (connection, newPathState). pushPathState connection newPathState u) u pairs))
       = []"
proof -
  have one: "pushPathState connection newPathState u =
     u\<lparr>connectionUpdateQueue := connectionUpdateQueue u @ [(connection, newPathState)],
       timerPeriodMs := 50, timerCountdownMs := 50\<rparr>"
    by (simp add: pushPathState_def startTimer_def enqueue_def)
  show ?thesis
    unfolding pushPathState_sequence one by (simp add: timerCallback_def)
qed

section \<open>Properties of the accessors\<close>

text \<open>
  C3, for the accessors that hold a \<^verbatim>\<open>pd::WeakReference\<close>. When the reference of a
  \<^verbatim>\<open>ToggleObject\<close> or of a \<^verbatim>\<open>NumberObject\<close> fails to lock, \<^verbatim>\<open>getValue\<close> returns 0,
  \<^verbatim>\<open>getMinimum\<close> minus infinity and \<^verbatim>\<open>getMaximum\<close> plus infinity; nothing is
  dereferenced and the state is what it was.
\<close>

theorem guarded_accessors_return_defaults:
  "WeakReference_get t ptr = None \<Longrightarrow> WeakReference_get s ptr' = None \<Longrightarrow>
     ToggleObject_getValue t ptr = (Finite 0, t)
   \<and> NumberObject_getValue s ptr' = (Finite 0, s)
   \<and> NumberObject_getMinimum s ptr' = (MinusInfinity, s)
   \<and> NumberObject_getMaximum s ptr' = (PlusInfinity, s)"
  by (simp add: ToggleObject_getValue_def NumberObject_getValue_def
        NumberObject_getMinimum_def NumberObject_getMaximum_def)

theorem guarded_accessors_return_defaults_witness:
  "WeakReference_get \<lparr>objects = Map.empty, dereferenced = []\<rparr> 7 = (None :: t_toggle option)
   \<and> WeakReference_get \<lparr>objects = Map.empty, dereferenced = []\<rparr> 8 = (None :: t_my_numbox option)
   \<and> ToggleObject_getValue \<lparr>objects = Map.empty, dereferenced = []\<rparr> 7
       = (Finite 0, \<lparr>objects = Map.empty, dereferenced = []\<rparr>)
   \<and> NumberObject_getValue \<lparr>objects = Map.empty, dereferenced = []\<rparr> 8
       = (Finite 0, \<lparr>objects = Map.empty, dereferenced = []\<rparr>)
   \<and> NumberObject_getMinimum \<lparr>objects = Map.empty, dereferenced = []\<rparr> 8
       = (MinusInfinity, \<lparr>objects = Map.empty, dereferenced = []\<rparr>)
   \<and> NumberObject_getMaximum \<lparr>objects = Map.empty, dereferenced = []\<rparr> 8
       = (PlusInfinity, \<lparr>objects = Map.empty, dereferenced = []\<rparr>)"
proof -
  have t: "WeakReference_get \<lparr>objects = Map.empty, dereferenced = []\<rparr> 7 = (None :: t_toggle option)"
    by (simp add: WeakReference_get_def)
  have s: "WeakReference_get \<lparr>objects = Map.empty, dereferenced = []\<rparr> 8 = (None :: t_my_numbox option)"
    by (simp add: WeakReference_get_def)
  from guarded_accessors_return_defaults [OF t s] t s show ?thesis
    by simp
qed

text \<open>
  \<^verbatim>\<open>RadioObject::getValue\<close> has no such check: when the radio object has been deleted,
  it reads through the dangling pointer instead of returning 0.
\<close>

theorem RadioObject_getValue_unguarded:
  "RadioObject_getValue \<lparr>objects = Map.empty, dereferenced = []\<rparr> 7
     = Inl (DanglingPointerDereference 7)
   \<and> RadioObject_getValue \<lparr>objects = Map.empty, dereferenced = []\<rparr> 7
     \<noteq> Inr (Finite 0, \<lparr>objects = Map.empty, dereferenced = []\<rparr>)"
  by (simp add: RadioObject_getValue_def)

section \<open>Properties of the saved parameter state\<close>

subsection \<open>The conversions of a range\<close>





subsection \<open>The identifiers of the elements\<close>





subsection \<open>Loading what was saved\<close>

lemma and_then_Inr [simp]: "and_then (Inr x) f = f x"
  by (simp add: and_then_def)

lemma and_then_Inl [simp]: "and_then (Inl e) f = Inl e"
  by (simp add: and_then_def)





























end
